theory Spec2Isabelle
  imports Complex_Main
begin

section \<open>Command dispatcher (modules/arduino\_comm.py)\<close>

text \<open>
  Commands are Python strings; a value that may also be \<^verbatim>\<open>None\<close> is a
  \<^typ>\<open>string option\<close>.
\<close>

definition valid_commands :: "string list" where
  "valid_commands = [''FORWARD'', ''LEFT'', ''RIGHT'', ''STOP'']"

text \<open>
  The pyserial object held in \<^verbatim>\<open>self.serial\<close>. Only its \<^verbatim>\<open>is_open\<close>
  flag is read by the dispatcher.
\<close>

record serial_port =
  is_open :: bool

text \<open>
  What the dispatcher asks of the serial object: \<^verbatim>\<open>serial.write(payload)\<close> and
  \<^verbatim>\<open>serial.close()\<close>, each with its outcome (\<open>True\<close>: the call returned,
  \<open>False\<close>: it raised).
\<close>

datatype serial_event = Write string bool | Close bool

text \<open>
  The fields of class \<^verbatim>\<open>ArduinoComm\<close> that its methods read or assign
  (\<^verbatim>\<open>port\<close>, \<^verbatim>\<open>baudrate\<close> and \<^verbatim>\<open>timeout\<close> are only handed to the
  constructor of the serial object). \<open>serial_log\<close> is not a field of the class: it
  records, in call order, every \<^verbatim>\<open>write\<close> and \<^verbatim>\<open>close\<close> the dispatcher performed
  on a serial object, so that transmissions can be counted.
\<close>

record arduino_comm =
  serial :: "serial_port option"
  last_command :: "string option"
  connected :: bool
  serial_log :: "serial_event list"

text \<open>\<^verbatim>\<open>f"{command}\n"\<close>: the command followed by a line feed.\<close>

definition full_cmd :: "string \<Rightarrow> string" where
  "full_cmd command = command @ [CHR 0x0A]"

text \<open>
  \<^verbatim>\<open>__init__\<close> followed by \<^verbatim>\<open>_connect\<close>. \<open>open_raises\<close> tells whether
  \<^verbatim>\<open>serial.Serial(...)\<close> raises.
\<close>

definition connect :: "bool \<Rightarrow> arduino_comm \<Rightarrow> arduino_comm" where
  "connect open_raises a =
     (if open_raises then a\<lparr>serial := None, connected := False\<rparr>
      else a\<lparr>serial := Some \<lparr>is_open = True\<rparr>, connected := True\<rparr>)"

definition ArduinoComm_init :: "bool \<Rightarrow> arduino_comm" where
  "ArduinoComm_init open_raises =
     connect open_raises
       \<lparr>serial = None, last_command = None, connected = False, serial_log = []\<rparr>"

text \<open>
  \<^verbatim>\<open>self.connected and self.serial and self.serial.is_open\<close>: a serial object is
  truthy, \<^verbatim>\<open>None\<close> is not.
\<close>

definition link_usable :: "arduino_comm \<Rightarrow> bool" where
  "link_usable a =
     (connected a \<and> (case serial a of None \<Rightarrow> False | Some p \<Rightarrow> is_open p))"

text \<open>
  \<^verbatim>\<open>send_command\<close>. \<open>write_raises\<close> tells whether \<^verbatim>\<open>serial.write\<close> raises if
  it is called. The result is the returned bool and the dispatcher afterwards.
\<close>

definition send_command :: "bool \<Rightarrow> string option \<Rightarrow> arduino_comm \<Rightarrow> bool \<times> arduino_comm" where
  "send_command write_raises command a =
     (case command of
        None \<Rightarrow> (False, a)
      | Some c \<Rightarrow>
          if c \<notin> set valid_commands then (False, a)
          else if command = last_command a then (True, a)
          else if link_usable a then
            (if write_raises
             then (False, a\<lparr>connected := False,
                            serial_log := serial_log a @ [Write (full_cmd c) False]\<rparr>)
             else (True, a\<lparr>last_command := Some c,
                           serial_log := serial_log a @ [Write (full_cmd c) True]\<rparr>))
          else (True, a\<lparr>last_command := Some c\<rparr>))"

definition is_connected :: "arduino_comm \<Rightarrow> bool" where
  "is_connected a = connected a"

definition get_last_command :: "arduino_comm \<Rightarrow> string option" where
  "get_last_command a = last_command a"

text \<open>
  \<^verbatim>\<open>close\<close>. \<open>write_raises\<close> and \<open>close_raises\<close> tell whether
  \<^verbatim>\<open>serial.write(b"STOP\n")\<close> and \<^verbatim>\<open>serial.close()\<close> raise if they are called;
  when the write raises, the \<^verbatim>\<open>except\<close> clause is entered and
  \<^verbatim>\<open>serial.close()\<close> is not reached.
\<close>

definition close_events :: "bool \<Rightarrow> bool \<Rightarrow> arduino_comm \<Rightarrow> serial_event list" where
  "close_events write_raises close_raises a =
     (case serial a of
        None \<Rightarrow> []
      | Some p \<Rightarrow>
          if is_open p then
            (if write_raises then [Write (full_cmd ''STOP'') False]
             else [Write (full_cmd ''STOP'') True, Close (\<not> close_raises)])
          else [])"

definition close :: "bool \<Rightarrow> bool \<Rightarrow> arduino_comm \<Rightarrow> arduino_comm" where
  "close write_raises close_raises a =
     a\<lparr>serial := None, connected := False, last_command := None,
       serial_log := serial_log a @ close_events write_raises close_raises a\<rparr>"

definition reconnect :: "bool \<Rightarrow> bool \<Rightarrow> bool \<Rightarrow> arduino_comm \<Rightarrow> arduino_comm" where
  "reconnect write_raises close_raises open_raises a =
     connect open_raises (close write_raises close_raises a)"

text \<open>The payloads handed to \<^verbatim>\<open>serial.write\<close>, whether or not the call raised.\<close>

fun transmissions :: "serial_event list \<Rightarrow> string list" where
  "transmissions [] = []"
| "transmissions (Write s ok # es) = s # transmissions es"
| "transmissions (Close ok # es) = transmissions es"

section \<open>Sector classifier and avoidance controller (modules/kinect\_vfh.py)\<close>

text \<open>
  Depths, angles, durations and wall-clock times are Python and NumPy floats. A float is
  read as the real number it denotes, and comparisons of floats are the comparisons of
  these numbers. The arithmetic on floats rounds, so it is not the arithmetic of the
  reals: the operations that the code applies to floats are parameters of the model,
  collected in a record, and whatever is proved for every such record holds for the
  machine's operations. Negation and the addition of 1 to a loop index are exact.
\<close>

record float_ops =
  f_add :: "real \<Rightarrow> real \<Rightarrow> real"
  f_sub :: "real \<Rightarrow> real \<Rightarrow> real"
  f_mul :: "real \<Rightarrow> real \<Rightarrow> real"
  f_div :: "real \<Rightarrow> real \<Rightarrow> real"
  f_cos :: "real \<Rightarrow> real"
  f_sin :: "real \<Rightarrow> real"
  f_radians :: "real \<Rightarrow> real"
  f_arctan2 :: "real \<Rightarrow> real \<Rightarrow> real"
  f_mod :: "real \<Rightarrow> real \<Rightarrow> real"
  f_pi :: real

text \<open>
  The fields of class \<^verbatim>\<open>KinectVFH\<close> (the OpenNI device and its streams apart).
  \<open>current_command\<close> and \<open>turn_direction\<close> hold a string or \<^verbatim>\<open>None\<close>.
\<close>

record kinect_vfh =
  fx :: real
  fy :: real
  cx :: real
  cy :: real
  threshold_distance :: real
  num_sectors :: int
  turn_duration :: real
  forward_duration :: real
  sector_labels :: "string list"
  current_command :: "string option"
  command_start_time :: real
  turn_direction :: "string option"
  angle_y :: real
  zoom :: real

text \<open>
  \<^verbatim>\<open>__init__\<close>, with the four constructor arguments and the value \<open>t0\<close> that
  \<^verbatim>\<open>time.time()\<close> returns there.
\<close>

definition KinectVFH_init :: "real \<Rightarrow> int \<Rightarrow> real \<Rightarrow> real \<Rightarrow> real \<Rightarrow> kinect_vfh" where
  "KinectVFH_init th n td fd t0 =
     \<lparr>fx = 525, fy = 525, cx = 319.5, cy = 239.5,
      threshold_distance = th, num_sectors = n, turn_duration = td, forward_duration = fd,
      sector_labels = [''Kiri'', ''Kiri-Depan'', ''Tengah'', ''Kanan-Depan'', ''Kanan''],
      current_command = Some ''FORWARD'', command_start_time = t0, turn_direction = None,
      angle_y = 0, zoom = 1.5\<rparr>"

text \<open>
  A sector status dictionary is an association list in insertion order; a Python dict
  has no key twice. \<open>dict_set\<close> is \<^verbatim>\<open>d[k] = x\<close>, \<open>sector_get\<close> is
  \<^verbatim>\<open>d.get(k, "Low")\<close>, \<open>dict_values\<close> is \<^verbatim>\<open>d.values()\<close>.
\<close>

type_synonym sector_status = "(string \<times> string) list"

fun dict_set :: "('k \<times> 'v) list \<Rightarrow> 'k \<Rightarrow> 'v \<Rightarrow> ('k \<times> 'v) list" where
  "dict_set [] k x = [(k, x)]"
| "dict_set ((k', x') # d) k x = (if k' = k then (k, x) # d else (k', x') # dict_set d k x)"

definition sector_get :: "sector_status \<Rightarrow> string \<Rightarrow> string" where
  "sector_get d k = (case map_of d k of None \<Rightarrow> ''Low'' | Some s \<Rightarrow> s)"

definition dict_values :: "('k \<times> 'v) list \<Rightarrow> 'v list" where
  "dict_values d = map snd d"

datatype error = ZeroDivisionError

text \<open>
  The operations without rounding: \<^verbatim>\<open>np.arctan2(y, x)\<close> and the floored remainder
  \<^verbatim>\<open>a % b\<close> over the reals, and the record of the exact operations. It is the
  instance in the examples, which state only what rounding does not change.
\<close>

definition arctan2 :: "real \<Rightarrow> real \<Rightarrow> real" where
  "arctan2 y x =
     (if 0 < x then arctan (y / x)
      else if x < 0 then (if 0 \<le> y then arctan (y / x) + pi else arctan (y / x) - pi)
      else if 0 < y then pi / 2
      else if y < 0 then - (pi / 2)
      else 0)"

definition fmod :: "real \<Rightarrow> real \<Rightarrow> real" where
  "fmod a b = a - b * of_int \<lfloor>a / b\<rfloor>"

definition exact_ops :: float_ops where
  "exact_ops = \<lparr>f_add = (+), f_sub = (-), f_mul = (*), f_div = (/), f_cos = cos, f_sin = sin,
     f_radians = (\<lambda>deg. deg * pi / 180), f_arctan2 = arctan2, f_mod = fmod, f_pi = pi\<rparr>"

text \<open>
  A depth frame is the list of its rows. \<open>valid_points\<close> lists row, column and depth
  of every pixel with \<^verbatim>\<open>depth_frame > 0\<close>, in the row-major order of boolean-mask
  indexing.
\<close>

type_synonym depth_frame = "real list list"

definition valid_points :: "depth_frame \<Rightarrow> (nat \<times> nat \<times> real) list" where
  "valid_points df =
     concat (map (\<lambda>(r, row). map (\<lambda>(c, z). (r, c, z))
                                 (filter (\<lambda>(c, z). 0 < z) (enumerate 0 row)))
                 (enumerate 0 df))"

text \<open>
  The arrays that \<^verbatim>\<open>analyze_sectors\<close> computes before its loop, one entry per valid
  pixel: \<^verbatim>\<open>z\<close> and the final \<^verbatim>\<open>theta_point\<close>. Each line is one assignment of
  the source, element by element (\<^verbatim>\<open>y\<close> is computed there but not used).
\<close>

definition theta_points :: "float_ops \<Rightarrow> kinect_vfh \<Rightarrow> depth_frame \<Rightarrow> real list \<times> real list" where
  "theta_points ops v df =
     (let valid = valid_points df;
          c = map (\<lambda>(r, c, z). real c) valid;
          z = map (\<lambda>(r, c, z). z) valid;
          x = map2 (\<lambda>c z. f_div ops (f_mul ops (f_sub ops c (cx v)) z) (fx v)) c z;
          theta = f_radians ops (angle_y v);
          cos_t = f_cos ops theta;
          sin_t = f_sin ops theta;
          x_rot = map2 (\<lambda>x z. f_add ops (f_mul ops cos_t x) (f_mul ops sin_t z)) x z;
          z_rot = map2 (\<lambda>x z. f_add ops (f_mul ops (- sin_t) x) (f_mul ops cos_t z)) x z;
          theta_point = map2 (f_arctan2 ops) x_rot z_rot;
          theta_point = map (\<lambda>t. f_mod ops t (f_pi ops)) theta_point
      in (z, theta_point))"

text \<open>
  The body of the loop over \<^verbatim>\<open>enumerate(self.sector_labels)\<close> for index \<open>i\<close>:
  \<^verbatim>\<open>mask_sector\<close> is a boolean array, \<^verbatim>\<open>np.any\<close> asks for a true entry, and
  \<^verbatim>\<open>z[mask_sector]\<close> keeps the depths at the true entries.
\<close>

definition sector_state :: "float_ops \<Rightarrow> kinect_vfh \<Rightarrow> real list \<Rightarrow> real list \<Rightarrow> nat \<Rightarrow> string" where
  "sector_state ops v z theta_point i =
     (let theta_min = f_mul ops (real i) (f_div ops (f_pi ops) (real_of_int (num_sectors v)));
          theta_max = f_mul ops (real (i + 1)) (f_div ops (f_pi ops) (real_of_int (num_sectors v)));
          mask_sector = map (\<lambda>t. theta_min \<le> t \<and> t < theta_max) theta_point
      in if list_ex (\<lambda>m. m) mask_sector then
           (let min_distance = min_list (map fst (filter snd (zip z mask_sector)))
            in if min_distance < threshold_distance v then ''High'' else ''Low'')
         else ''Low'')"

text \<open>
  \<^verbatim>\<open>analyze_sectors\<close>. \<^verbatim>\<open>np.pi / self.num_sectors\<close> raises for
  \<^verbatim>\<open>num_sectors = 0\<close> as soon as the loop body runs.
\<close>

definition analyze_sectors :: "float_ops \<Rightarrow> kinect_vfh \<Rightarrow> depth_frame option \<Rightarrow> error + sector_status" where
  "analyze_sectors ops v depth_frame =
     (case depth_frame of
        None \<Rightarrow> Inr (foldl (\<lambda>d label. dict_set d label ''Low'') [] (sector_labels v))
      | Some df \<Rightarrow>
          if sector_labels v \<noteq> [] \<and> num_sectors v = 0 then Inl ZeroDivisionError
          else
            (case theta_points ops v df of
               (z, theta_point) \<Rightarrow>
                 Inr (foldl (\<lambda>d (i, label). dict_set d label (sector_state ops v z theta_point i))
                            [] (enumerate 0 (sector_labels v)))))"

definition is_all_clear :: "sector_status \<Rightarrow> bool" where
  "is_all_clear d = list_all (\<lambda>status. status = ''Low'') (dict_values d)"

definition obstacle_detected :: "sector_status \<Rightarrow> bool" where
  "obstacle_detected d = list_ex (\<lambda>status. status = ''High'') (dict_values d)"

text \<open>The \<^verbatim>\<open>if/elif/elif\<close> chain of \<^verbatim>\<open>get_vfh_command\<close> that assigns \<^verbatim>\<open>turn_direction\<close>.\<close>

definition choose_turn :: "sector_status \<Rightarrow> kinect_vfh \<Rightarrow> kinect_vfh" where
  "choose_turn d v =
     (if sector_get d ''Kiri'' = ''High'' \<or> sector_get d ''Kiri-Depan'' = ''High''
      then v\<lparr>turn_direction := Some ''RIGHT''\<rparr>
      else if sector_get d ''Kanan'' = ''High'' \<or> sector_get d ''Kanan-Depan'' = ''High''
      then v\<lparr>turn_direction := Some ''LEFT''\<rparr>
      else if sector_get d ''Tengah'' = ''High''
      then (if sector_get d ''Kiri-Depan'' = ''Low''
            then v\<lparr>turn_direction := Some ''LEFT''\<rparr>
            else v\<lparr>turn_direction := Some ''RIGHT''\<rparr>)
      else v)"

text \<open>
  \<^verbatim>\<open>get_vfh_command\<close>, with the value \<open>t\<close> that \<^verbatim>\<open>time.time()\<close> returns in
  the call. \<^verbatim>\<open>elapsed\<close> is the machine's difference of two floats. The result is
  the returned command and the controller afterwards.
\<close>

definition get_vfh_command ::
  "float_ops \<Rightarrow> real \<Rightarrow> sector_status \<Rightarrow> kinect_vfh \<Rightarrow> string option \<times> kinect_vfh" where
  "get_vfh_command ops t d v =
     (let elapsed = f_sub ops t (command_start_time v)
      in if \<not> obstacle_detected d then
           (let v1 = (if current_command v \<noteq> Some ''FORWARD''
                      then v\<lparr>current_command := Some ''FORWARD'', command_start_time := t\<rparr>
                      else v)
            in (current_command v1, v1))
         else
           (let v1 = choose_turn d v;
                v2 = (if current_command v1 = Some ''FORWARD'' then
                        (if forward_duration v1 \<le> elapsed
                         then v1\<lparr>current_command := turn_direction v1, command_start_time := t\<rparr>
                         else v1)
                      else if current_command v1 \<in> {Some ''LEFT'', Some ''RIGHT''} then
                        (if turn_duration v1 \<le> elapsed
                         then v1\<lparr>current_command := Some ''FORWARD'', command_start_time := t\<rparr>
                         else v1)
                      else v1)
            in (current_command v2, v2)))"



section \<open>Tracking mapper (modules/aruco\_tracker.py)\<close>

text \<open>
  The detection result dictionary (its \<^verbatim>\<open>corners\<close> array apart). Marker detection
  itself is done by OpenCV; the result is an input here.
\<close>

record aruco_result =
  detected :: bool
  marker_id :: "int option"
  center_x :: "int option"
  center_y :: "int option"
  zone :: "string option"
  distance :: "real option"

definition get_tracking_command :: "aruco_result \<Rightarrow> string option" where
  "get_tracking_command detection_result =
     (if \<not> detected detection_result then None
      else if zone detection_result = Some ''LEFT'' then Some ''RIGHT''
      else if zone detection_result = Some ''RIGHT'' then Some ''LEFT''
      else Some ''FORWARD'')"

section \<open>Arbiter and control loop (main.py)\<close>

text \<open>
  \<^verbatim>\<open>config.py\<close> is not among the sources; the two settings that the arbiter reads
  are parameters.
\<close>

record config =
  ARUCO_APPROACH_DISTANCE :: real
  SEARCH_MODE_BEHAVIOR :: string

text \<open>
  The fields of class \<^verbatim>\<open>RobotController\<close> that take part in the choice of
  commands (logger and frame counters apart). Its \<^verbatim>\<open>current_command\<close> is named
  \<open>rc_current_command\<close> here, apart from the field of the avoidance controller.
\<close>

record robot_controller =
  vfh :: kinect_vfh
  arduino :: arduino_comm
  mode :: string
  rc_current_command :: "string option"
  running :: bool
  force_mode :: "string option"

definition RobotController_init :: "kinect_vfh \<Rightarrow> arduino_comm \<Rightarrow> robot_controller" where
  "RobotController_init v a =
     \<lparr>vfh = v, arduino = a, mode = ''INIT'', rc_current_command = Some ''STOP'',
      running = True, force_mode = None\<rparr>"

text \<open>
  \<^verbatim>\<open>decision_logic\<close>: the returned command, and the controller with
  \<^verbatim>\<open>self.mode\<close> assigned.
\<close>

definition decision_logic ::
  "config \<Rightarrow> bool \<Rightarrow> sector_status \<Rightarrow> string option \<Rightarrow> aruco_result \<Rightarrow> string option \<Rightarrow>
   robot_controller \<Rightarrow> string option \<times> robot_controller" where
  "decision_logic cfg path_clear d vfh_cmd ar aruco_cmd rc =
     (if force_mode rc = Some ''VFH_ONLY'' then (vfh_cmd, rc\<lparr>mode := ''VFH_ACTIVE''\<rparr>)
      else if force_mode rc = Some ''ARUCO_ONLY'' then
        (if detected ar then (aruco_cmd, rc\<lparr>mode := ''ARUCO_TRACKING''\<rparr>)
         else (Some ''STOP'', rc\<lparr>mode := ''SEARCH''\<rparr>))
      else if \<not> path_clear then (vfh_cmd, rc\<lparr>mode := ''VFH_ACTIVE''\<rparr>)
      else if detected ar then
        (case distance ar of
           Some m \<Rightarrow>
             if m < ARUCO_APPROACH_DISTANCE cfg then (Some ''STOP'', rc\<lparr>mode := ''ARUCO_REACHED''\<rparr>)
             else (aruco_cmd, rc\<lparr>mode := ''ARUCO_TRACKING''\<rparr>)
         | None \<Rightarrow> (aruco_cmd, rc\<lparr>mode := ''ARUCO_TRACKING''\<rparr>))
      else
        (if SEARCH_MODE_BEHAVIOR cfg = ''STOP'' then (Some ''STOP'', rc\<lparr>mode := ''SEARCH''\<rparr>)
         else (Some ''STOP'', rc\<lparr>mode := ''SEARCH''\<rparr>)))"








text \<open>\<^verbatim>\<open>cleanup\<close>: the dispatcher is sent STOP and then closed.\<close>

definition cleanup :: "bool \<Rightarrow> bool \<Rightarrow> bool \<Rightarrow> robot_controller \<Rightarrow> robot_controller" where
  "cleanup send_raises write_raises close_raises rc =
     rc\<lparr>arduino := close write_raises close_raises
                      (snd (send_command send_raises (Some ''STOP'') (arduino rc)))\<rparr>"





section \<open>Concrete inputs\<close>

text \<open>Sector statuses as \<^verbatim>\<open>analyze_sectors\<close> builds them, over the five labels.\<close>

definition all_low :: sector_status where
  "all_low = [(''Kiri'', ''Low''), (''Kiri-Depan'', ''Low''), (''Tengah'', ''Low''),
     (''Kanan-Depan'', ''Low''), (''Kanan'', ''Low'')]"

definition left_front_blocked :: sector_status where
  "left_front_blocked = [(''Kiri'', ''Low''), (''Kiri-Depan'', ''High''), (''Tengah'', ''Low''),
     (''Kanan-Depan'', ''Low''), (''Kanan'', ''Low'')]"

definition center_blocked :: sector_status where
  "center_blocked = [(''Kiri'', ''Low''), (''Kiri-Depan'', ''Low''), (''Tengah'', ''High''),
     (''Kanan-Depan'', ''Low''), (''Kanan'', ''Low'')]"


definition left_marker :: aruco_result where
  "left_marker = \<lparr>detected = True, marker_id = Some 7, center_x = Some 100, center_y = Some 240,
     zone = Some ''LEFT'', distance = Some 0.3\<rparr>"

definition close_marker :: aruco_result where
  "close_marker = \<lparr>detected = True, marker_id = Some 7, center_x = Some 320, center_y = Some 240,
     zone = Some ''CENTER'', distance = Some 0.01\<rparr>"


definition default_config :: config where
  "default_config = \<lparr>ARUCO_APPROACH_DISTANCE = 0.5, SEARCH_MODE_BEHAVIOR = ''STOP''\<rparr>"

text \<open>
  The controller as \<^verbatim>\<open>RobotController.__init__\<close> leaves it, with the default
  constructor arguments of \<^verbatim>\<open>KinectVFH\<close>, the clock at 0 and the serial port opened.
\<close>

definition fresh_controller :: robot_controller where
  "fresh_controller = RobotController_init (KinectVFH_init 1 5 0.2 0.4 0) (ArduinoComm_init False)"

section \<open>The sector rule in the words of the specification\<close>

text \<open>
  The azimuth of a pixel in column \<open>col\<close> with depth \<open>z\<close>: back-projection
  \<open>x = (col - cx) z / fx\<close>, rotation of \<open>x\<close> and \<open>z\<close> by the view yaw,
  \<open>x' = cos \<theta> x + sin \<theta> z\<close> and \<open>z' = - sin \<theta> x + cos \<theta> z\<close>, then
  \<open>atan2 (x', z')\<close> reduced modulo \<open>\<pi>\<close>. The operations are the machine's.
\<close>

definition backproject_x :: "float_ops \<Rightarrow> kinect_vfh \<Rightarrow> nat \<Rightarrow> real \<Rightarrow> real" where
  "backproject_x ops v col z = f_div ops (f_mul ops (f_sub ops (real col) (cx v)) z) (fx v)"

definition view_yaw :: "float_ops \<Rightarrow> kinect_vfh \<Rightarrow> real" where
  "view_yaw ops v = f_radians ops (angle_y v)"

definition rotated_x :: "float_ops \<Rightarrow> kinect_vfh \<Rightarrow> nat \<Rightarrow> real \<Rightarrow> real" where
  "rotated_x ops v col z =
     f_add ops (f_mul ops (f_cos ops (view_yaw ops v)) (backproject_x ops v col z))
               (f_mul ops (f_sin ops (view_yaw ops v)) z)"

definition rotated_z :: "float_ops \<Rightarrow> kinect_vfh \<Rightarrow> nat \<Rightarrow> real \<Rightarrow> real" where
  "rotated_z ops v col z =
     f_add ops (f_mul ops (- f_sin ops (view_yaw ops v)) (backproject_x ops v col z))
               (f_mul ops (f_cos ops (view_yaw ops v)) z)"

definition azimuth :: "float_ops \<Rightarrow> kinect_vfh \<Rightarrow> nat \<Rightarrow> real \<Rightarrow> real" where
  "azimuth ops v col z =
     f_mod ops (f_arctan2 ops (rotated_x ops v col z) (rotated_z ops v col z)) (f_pi ops)"

text \<open>
  Sector \<open>i\<close> covers the azimuths from \<open>i \<pi> / N\<close> up to but excluding
  \<open>(i + 1) \<pi> / N\<close>; \<open>sector_bound\<close> is the lower end, with the product and the
  quotient taken in the order of the code.
\<close>

definition sector_bound :: "float_ops \<Rightarrow> kinect_vfh \<Rightarrow> nat \<Rightarrow> real" where
  "sector_bound ops v i = f_mul ops (real i) (f_div ops (f_pi ops) (real_of_int (num_sectors v)))"

text \<open>
  The original (unrotated) depths of the valid points (depth above zero) of a depth
  frame whose azimuth lies in the range of sector \<open>i\<close>.
\<close>

definition sector_depths :: "float_ops \<Rightarrow> kinect_vfh \<Rightarrow> depth_frame \<Rightarrow> nat \<Rightarrow> real set" where
  "sector_depths ops v df i =
     {z. \<exists>r c. r < length df \<and> c < length (df ! r) \<and> z = df ! r ! c \<and> 0 < z
            \<and> sector_bound ops v i \<le> azimuth ops v c z
            \<and> azimuth ops v c z < sector_bound ops v (i + 1)}"

text \<open>A frame of one row and two pixels, at 0.5 m and 2 m.\<close>

definition two_pixels :: depth_frame where
  "two_pixels = [[0.5, 2]]"

text \<open>
  A classifier constructed with four sectors and the default threshold of 1 m, its view
  turned by 90 degrees.
\<close>

definition quarter_turned :: kinect_vfh where
  "quarter_turned = (KinectVFH_init 1 4 0.2 0.4 0)\<lparr>angle_y := 90\<rparr>"

section \<open>The dispatcher: failed writes, repeated commands, shutdown\<close>

lemma send_command_invalid: "c \<notin> set valid_commands \<Longrightarrow> send_command w (Some c) a = (False, a)"
  by (simp add: send_command_def)

lemma send_command_same:
  "c \<in> set valid_commands \<Longrightarrow> last_command a = Some c \<Longrightarrow> send_command w (Some c) a = (True, a)"
  by (simp add: send_command_def)

lemma send_command_simulated:
  "c \<in> set valid_commands \<Longrightarrow> last_command a \<noteq> Some c \<Longrightarrow> \<not> link_usable a \<Longrightarrow>
   send_command w (Some c) a = (True, a\<lparr>last_command := Some c\<rparr>)"
  by (auto simp: send_command_def)

lemma send_command_written:
  "c \<in> set valid_commands \<Longrightarrow> last_command a \<noteq> Some c \<Longrightarrow> link_usable a \<Longrightarrow>
   send_command False (Some c) a =
     (True, a\<lparr>last_command := Some c, serial_log := serial_log a @ [Write (full_cmd c) True]\<rparr>)"
  by (auto simp: send_command_def)

lemma send_command_raised:
  "c \<in> set valid_commands \<Longrightarrow> last_command a \<noteq> Some c \<Longrightarrow> link_usable a \<Longrightarrow>
   send_command True (Some c) a =
     (False, a\<lparr>connected := False, serial_log := serial_log a @ [Write (full_cmd c) False]\<rparr>)"
  by (auto simp: send_command_def)

lemma transmissions_append: "transmissions (es @ fs) = transmissions es @ transmissions fs"
  by (induction es rule: transmissions.induct) simp_all

text \<open>
  C1, as the code has it. When \<^verbatim>\<open>send_command\<close> is called with a valid command
  different from \<^verbatim>\<open>last_command\<close> while the link is connected and open, and the
  serial write raises, the call returns \<^verbatim>\<open>False\<close>, \<^verbatim>\<open>connected\<close> is false
  afterwards and \<^verbatim>\<open>last_command\<close> is left as it was: the command is not recorded as
  sent. The next call with the same command is therefore not deduplicated; it takes the
  simulation branch, makes no write, records the command and returns \<^verbatim>\<open>True\<close>.
\<close>

theorem send_command_write_failure:
  assumes "c \<in> set valid_commands" and "last_command a \<noteq> Some c" and "link_usable a"
  shows "send_command True (Some c) a =
           (False, a\<lparr>connected := False, serial_log := serial_log a @ [Write (full_cmd c) False]\<rparr>)
         \<and> last_command (snd (send_command True (Some c) a)) = last_command a
         \<and> connected (snd (send_command True (Some c) a)) = False
         \<and> send_command w (Some c) (snd (send_command True (Some c) a)) =
             (True, a\<lparr>connected := False, last_command := Some c,
                     serial_log := serial_log a @ [Write (full_cmd c) False]\<rparr>)"
proof -
  let ?a1 = "a\<lparr>connected := False, serial_log := serial_log a @ [Write (full_cmd c) False]\<rparr>"
  from assms have first: "send_command True (Some c) a = (False, ?a1)"
    by (rule send_command_raised)
  have "\<not> link_usable ?a1"
    by (simp add: link_usable_def)
  with assms(1,2) have "send_command w (Some c) ?a1 = (True, ?a1\<lparr>last_command := Some c\<rparr>)"
    by (simp add: send_command_simulated)
  with first show ?thesis
    by simp
qed

text \<open>
  The theorem at a freshly connected dispatcher and the command FORWARD.
\<close>

theorem send_command_write_failure_witness:
  "''FORWARD'' \<in> set valid_commands
   \<and> last_command (ArduinoComm_init False) \<noteq> Some ''FORWARD''
   \<and> link_usable (ArduinoComm_init False)
   \<and> send_command True (Some ''FORWARD'') (ArduinoComm_init False) =
       (False, \<lparr>serial = Some \<lparr>is_open = True\<rparr>, last_command = None, connected = False,
                serial_log = [Write (''FORWARD'' @ [CHR 0x0A]) False]\<rparr>)"
  using send_command_write_failure [of "''FORWARD''" "ArduinoComm_init False" False]
  by (simp add: valid_commands_def ArduinoComm_init_def connect_def link_usable_def full_cmd_def)

text \<open>
  C1 as the specification words it fails there: the command is valid, differs from
  \<^verbatim>\<open>last_command\<close>, the link is connected and the write raises, yet
  \<^verbatim>\<open>last_command\<close> is not the attempted command afterwards.
\<close>

theorem send_command_write_failure_counterexample:
  "''FORWARD'' \<in> set valid_commands
   \<and> last_command (ArduinoComm_init False) \<noteq> Some ''FORWARD''
   \<and> link_usable (ArduinoComm_init False)
   \<and> \<not> (connected (snd (send_command True (Some ''FORWARD'') (ArduinoComm_init False))) = False
          \<and> last_command (snd (send_command True (Some ''FORWARD'') (ArduinoComm_init False)))
              = Some ''FORWARD'')"
  by (simp add: send_command_def valid_commands_def ArduinoComm_init_def connect_def link_usable_def)

lemma STOP_valid: "''STOP'' \<in> set valid_commands"
  by (simp add: valid_commands_def)

lemma two_stops:
  assumes "last_command a \<noteq> Some ''STOP''"
  shows "transmissions (serial_log (snd (send_command w2 (Some ''STOP'')
           (snd (send_command w1 (Some ''STOP'') a))))) =
         transmissions (serial_log a) @ (if link_usable a then [full_cmd ''STOP''] else [])"
proof (cases "link_usable a")
  case False
  with assms show ?thesis
    by (simp add: send_command_simulated send_command_same STOP_valid)
next
  case True
  show ?thesis
  proof (cases w1)
    case False
    with True assms show ?thesis
      by (simp add: send_command_written send_command_same STOP_valid transmissions_append)
  next
    case w1: True
    let ?a1 = "a\<lparr>connected := False, serial_log := serial_log a @ [Write (full_cmd ''STOP'') False]\<rparr>"
    have "\<not> link_usable ?a1"
      by (simp add: link_usable_def)
    with assms have "send_command w2 (Some ''STOP'') ?a1 = (True, ?a1\<lparr>last_command := Some ''STOP''\<rparr>)"
      by (simp add: send_command_simulated STOP_valid)
    with True w1 assms show ?thesis
      by (simp add: send_command_raised STOP_valid transmissions_append)
  qed
qed

text \<open>
  C7, as the code has it. A call of \<^verbatim>\<open>send_command\<close> with a valid command equal to
  \<^verbatim>\<open>last_command\<close> returns \<^verbatim>\<open>True\<close>, writes nothing and leaves the dispatcher
  as it was. Two calls with STOP in a row, from a state whose \<^verbatim>\<open>last_command\<close> is
  not STOP, hand exactly one payload (\<^verbatim>\<open>STOP\n\<close>) to the serial link when the link
  is connected and open, and none when it is not (simulation mode); never more than one.
\<close>

theorem send_command_dedup:
  "(c \<in> set valid_commands \<and> last_command a = Some c \<longrightarrow> send_command w (Some c) a = (True, a))
   \<and> (last_command a \<noteq> Some ''STOP'' \<longrightarrow>
        transmissions (serial_log (snd (send_command w2 (Some ''STOP'')
          (snd (send_command w1 (Some ''STOP'') a))))) =
        transmissions (serial_log a) @ (if link_usable a then [full_cmd ''STOP''] else []))"
  using two_stops [of a w2 w1] by (simp add: send_command_same)

text \<open>
  The theorem at a freshly connected dispatcher: the second STOP changes nothing, and
  the two calls together wrote \<^verbatim>\<open>STOP\n\<close> once.
\<close>

theorem send_command_dedup_witness:
  "''STOP'' \<in> set valid_commands
   \<and> last_command (ArduinoComm_init False) \<noteq> Some ''STOP''
   \<and> send_command False (Some ''STOP'') (snd (send_command False (Some ''STOP'') (ArduinoComm_init False)))
       = (True, snd (send_command False (Some ''STOP'') (ArduinoComm_init False)))
   \<and> transmissions (serial_log (snd (send_command False (Some ''STOP'')
        (snd (send_command False (Some ''STOP'') (ArduinoComm_init False)))))) = [''STOP'' @ [CHR 0x0A]]"
  using send_command_dedup [of "''STOP''" "snd (send_command False (Some ''STOP'') (ArduinoComm_init False))" False False False]
    send_command_dedup [of "''STOP''" "ArduinoComm_init False" False False False]
  by (simp add: valid_commands_def ArduinoComm_init_def connect_def link_usable_def full_cmd_def send_command_def)

text \<open>
  C7 as the specification words it fails for a dispatcher whose connection could not be
  opened: \<^verbatim>\<open>last_command\<close> is not STOP, and STOP sent twice in a row results in no
  transmission at all.
\<close>

theorem send_command_dedup_counterexample:
  "last_command (ArduinoComm_init True) \<noteq> Some ''STOP''
   \<and> serial_log (ArduinoComm_init True) = []
   \<and> transmissions (serial_log (snd (send_command False (Some ''STOP'')
        (snd (send_command False (Some ''STOP'') (ArduinoComm_init True)))))) = []"
  by (simp add: send_command_def valid_commands_def ArduinoComm_init_def connect_def link_usable_def)

text \<open>
  C3, as the code has it. \<^verbatim>\<open>close\<close> calls \<^verbatim>\<open>serial.write(b"STOP\n")\<close> exactly
  once whenever a serial object is present and open, whatever \<^verbatim>\<open>last_command\<close> and
  \<^verbatim>\<open>connected\<close> are (no deduplication); when that write returns, it closes the port.
  When there is no open serial object it transmits nothing. In every case it then sets
  \<^verbatim>\<open>serial\<close> to \<^verbatim>\<open>None\<close>, \<^verbatim>\<open>connected\<close> to false and \<^verbatim>\<open>last_command\<close>
  to \<^verbatim>\<open>None\<close>.
\<close>

theorem close_sends_stop:
  "serial (close wr cr a) = None \<and> connected (close wr cr a) = False
   \<and> last_command (close wr cr a) = None
   \<and> serial_log (close wr cr a) = serial_log a @ close_events wr cr a
   \<and> close_events wr cr a =
       (if serial a = Some \<lparr>is_open = True\<rparr>
        then (if wr then [Write (full_cmd ''STOP'') False]
              else [Write (full_cmd ''STOP'') True, Close (\<not> cr)])
        else [])"
  by (cases "serial a") (auto simp: close_def close_events_def)

text \<open>
  The theorem at a connected dispatcher whose last command is already STOP: closing it
  writes \<^verbatim>\<open>STOP\n\<close> once more.
\<close>

theorem close_sends_stop_witness:
  "last_command (snd (send_command False (Some ''STOP'') (ArduinoComm_init False))) = Some ''STOP''
   \<and> transmissions (close_events False False (snd (send_command False (Some ''STOP'') (ArduinoComm_init False))))
       = [''STOP'' @ [CHR 0x0A]]"
  using close_sends_stop [of False False "snd (send_command False (Some ''STOP'') (ArduinoComm_init False))"]
  by (simp add: valid_commands_def ArduinoComm_init_def connect_def link_usable_def full_cmd_def send_command_def)

text \<open>
  C3 as the specification words it fails for a dispatcher whose connection could not be
  opened: closing it attempts no transmission.
\<close>

theorem close_sends_stop_counterexample:
  "serial (ArduinoComm_init True) = None
   \<and> transmissions (serial_log (close False False (ArduinoComm_init True))) = []"
  by (simp add: close_def close_events_def ArduinoComm_init_def connect_def)

section \<open>The arbiter\<close>

text \<open>
  C2. In hybrid mode (\<^verbatim>\<open>force_mode\<close> is \<^verbatim>\<open>None\<close>), whenever \<^verbatim>\<open>path_clear\<close>
  is false, \<^verbatim>\<open>decision_logic\<close> returns the avoidance command \<^verbatim>\<open>vfh_cmd\<close> and
  sets the mode to VFH\_ACTIVE, whatever the detection result and the marker distance are.
\<close>

theorem decision_logic_obstacle:
  assumes "force_mode rc = None" and "\<not> path_clear"
  shows "decision_logic cfg path_clear d vfh_cmd ar aruco_cmd rc = (vfh_cmd, rc\<lparr>mode := ''VFH_ACTIVE''\<rparr>)"
  using assms by (simp add: decision_logic_def)

text \<open>
  The theorem with a marker detected at 1 cm and the left-front sector blocked: the
  avoidance command RIGHT wins over the tracking command FORWARD.
\<close>

theorem decision_logic_obstacle_witness:
  "force_mode fresh_controller = None
   \<and> detected close_marker
   \<and> \<not> is_all_clear left_front_blocked
   \<and> decision_logic default_config (is_all_clear left_front_blocked) left_front_blocked (Some ''RIGHT'')
        close_marker (Some ''FORWARD'') fresh_controller
       = (Some ''RIGHT'', fresh_controller\<lparr>mode := ''VFH_ACTIVE''\<rparr>)"
  using decision_logic_obstacle [where rc = fresh_controller
      and path_clear = "is_all_clear left_front_blocked" and cfg = default_config
      and d = left_front_blocked and vfh_cmd = "Some ''RIGHT''" and ar = close_marker
      and aruco_cmd = "Some ''FORWARD''"]
  by (simp add: fresh_controller_def RobotController_init_def close_marker_def
      is_all_clear_def dict_values_def left_front_blocked_def)

text \<open>
  C8. In hybrid mode with all sectors clear and a marker detected, \<^verbatim>\<open>decision_logic\<close>
  returns STOP with mode ARUCO\_REACHED if and only if the marker's distance is known and
  strictly less than the approach distance; if the distance is unknown or not less than
  the approach distance, it returns the tracking command with mode ARUCO\_TRACKING.
\<close>

theorem decision_logic_marker:
  assumes "force_mode rc = None" and "path_clear" and "detected ar"
  shows "(decision_logic cfg path_clear d vfh_cmd ar aruco_cmd rc = (Some ''STOP'', rc\<lparr>mode := ''ARUCO_REACHED''\<rparr>)
           \<longleftrightarrow> (\<exists>m. distance ar = Some m \<and> m < ARUCO_APPROACH_DISTANCE cfg))
         \<and> ((distance ar = None \<or> (\<exists>m. distance ar = Some m \<and> \<not> m < ARUCO_APPROACH_DISTANCE cfg))
              \<longrightarrow> decision_logic cfg path_clear d vfh_cmd ar aruco_cmd rc = (aruco_cmd, rc\<lparr>mode := ''ARUCO_TRACKING''\<rparr>))"
proof -
  have neq: "rc\<lparr>mode := ''ARUCO_TRACKING''\<rparr> \<noteq> rc\<lparr>mode := ''ARUCO_REACHED''\<rparr>"
  proof
    assume "rc\<lparr>mode := ''ARUCO_TRACKING''\<rparr> = rc\<lparr>mode := ''ARUCO_REACHED''\<rparr>"
    then have "mode (rc\<lparr>mode := ''ARUCO_TRACKING''\<rparr>) = mode (rc\<lparr>mode := ''ARUCO_REACHED''\<rparr>)"
      by (rule arg_cong)
    then show False by simp
  qed
  show ?thesis
    using assms neq by (cases "distance ar") (auto simp: decision_logic_def)
qed

text \<open>
  The theorem in the scenario of the specification: marker in the left zone at 0.3 m,
  approach distance 0.5 m, all sectors clear. The tracking command would be RIGHT; the
  arbiter returns STOP with mode ARUCO\_REACHED.
\<close>

theorem decision_logic_marker_witness:
  "force_mode fresh_controller = None
   \<and> is_all_clear all_low
   \<and> detected left_marker
   \<and> get_tracking_command left_marker = Some ''RIGHT''
   \<and> decision_logic default_config (is_all_clear all_low) all_low (Some ''FORWARD'') left_marker
        (get_tracking_command left_marker) fresh_controller
       = (Some ''STOP'', fresh_controller\<lparr>mode := ''ARUCO_REACHED''\<rparr>)"
proof -
  have hyps: "force_mode fresh_controller = None" "is_all_clear all_low" "detected left_marker"
    by (simp_all add: fresh_controller_def RobotController_init_def left_marker_def
        is_all_clear_def dict_values_def all_low_def)
  have "distance left_marker = Some 0.3 \<and> (0.3::real) < ARUCO_APPROACH_DISTANCE default_config"
    by (simp add: left_marker_def default_config_def)
  then have near: "\<exists>m. distance left_marker = Some m \<and> m < ARUCO_APPROACH_DISTANCE default_config"
    by (rule exI)
  have track: "get_tracking_command left_marker = Some ''RIGHT''"
    by (simp add: get_tracking_command_def left_marker_def)
  from decision_logic_marker [OF hyps, where cfg = default_config and d = all_low
      and vfh_cmd = "Some ''FORWARD''" and aruco_cmd = "get_tracking_command left_marker"] near
  have "decision_logic default_config (is_all_clear all_low) all_low (Some ''FORWARD'') left_marker
        (get_tracking_command left_marker) fresh_controller
       = (Some ''STOP'', fresh_controller\<lparr>mode := ''ARUCO_REACHED''\<rparr>)"
    by blast
  with hyps track show ?thesis
    by blast
qed

section \<open>The avoidance controller\<close>

lemma exact_sub: "f_sub exact_ops a b = a - b"
  by (simp add: exact_ops_def)

lemma choose_turn_fields [simp]:
  "current_command (choose_turn d v) = current_command v"
  "command_start_time (choose_turn d v) = command_start_time v"
  "forward_duration (choose_turn d v) = forward_duration v"
  "turn_duration (choose_turn d v) = turn_duration v"
  by (simp_all add: choose_turn_def)

lemma choose_turn_direction:
  "turn_direction (choose_turn d v) =
     (if sector_get d ''Kiri'' = ''High'' \<or> sector_get d ''Kiri-Depan'' = ''High'' then Some ''RIGHT''
      else if sector_get d ''Kanan'' = ''High'' \<or> sector_get d ''Kanan-Depan'' = ''High'' then Some ''LEFT''
      else if sector_get d ''Tengah'' = ''High''
      then (if sector_get d ''Kiri-Depan'' = ''Low'' then Some ''LEFT'' else Some ''RIGHT'')
      else turn_direction v)"
  by (simp add: choose_turn_def)

lemma get_vfh_command_returns:
  "fst (get_vfh_command ops t d v) = current_command (snd (get_vfh_command ops t d v))"
  by (simp add: get_vfh_command_def Let_def)

lemma get_vfh_command_turn:
  "obstacle_detected d \<Longrightarrow>
   turn_direction (snd (get_vfh_command ops t d v)) = turn_direction (choose_turn d v)"
  by (simp add: get_vfh_command_def Let_def)

lemma get_vfh_command_current:
  assumes "obstacle_detected d"
  shows "current_command (snd (get_vfh_command ops t d v)) =
     (if current_command v = Some ''FORWARD'' then
        (if forward_duration v \<le> f_sub ops t (command_start_time v) then turn_direction (choose_turn d v)
         else Some ''FORWARD'')
      else if current_command v = Some ''LEFT'' \<or> current_command v = Some ''RIGHT'' then
        (if turn_duration v \<le> f_sub ops t (command_start_time v) then Some ''FORWARD'' else current_command v)
      else current_command v)"
  using assms by (simp add: get_vfh_command_def Let_def)

lemma get_vfh_command_start:
  assumes "obstacle_detected d"
  shows "command_start_time (snd (get_vfh_command ops t d v)) =
     (if current_command v = Some ''FORWARD'' then
        (if forward_duration v \<le> f_sub ops t (command_start_time v) then t else command_start_time v)
      else if current_command v = Some ''LEFT'' \<or> current_command v = Some ''RIGHT'' then
        (if turn_duration v \<le> f_sub ops t (command_start_time v) then t else command_start_time v)
      else command_start_time v)"
  using assms by (simp add: get_vfh_command_def Let_def)


lemma get_vfh_command_durations:
  "forward_duration (snd (get_vfh_command ops t d v)) = forward_duration v"
  "turn_duration (snd (get_vfh_command ops t d v)) = turn_duration v"
  by (simp_all add: get_vfh_command_def Let_def)

lemma init_fields:
  "current_command (KinectVFH_init th n td fd t0) = Some ''FORWARD''"
  "command_start_time (KinectVFH_init th n td fd t0) = t0"
  "forward_duration (KinectVFH_init th n td fd t0) = fd"
  "turn_duration (KinectVFH_init th n td fd t0) = td"
  by (simp_all add: KinectVFH_init_def)

lemma left_front_blocked_obstacle: "obstacle_detected left_front_blocked"
  by (simp add: left_front_blocked_def obstacle_detected_def dict_values_def)

lemma left_front_blocked_turn: "turn_direction (choose_turn left_front_blocked v) = Some ''RIGHT''"
  by (simp add: choose_turn_direction left_front_blocked_def sector_get_def)

lemma center_blocked_obstacle: "obstacle_detected center_blocked"
  by (simp add: center_blocked_def obstacle_detected_def dict_values_def)

lemma all_low_clear: "\<not> obstacle_detected all_low"
  by (simp add: all_low_def obstacle_detected_def dict_values_def)

lemma scenario_first:
  assumes "f_sub ops 0 0 = 0" and "0 < fd"
  shows "fst (get_vfh_command ops 0 left_front_blocked (KinectVFH_init th n td fd 0)) = Some ''FORWARD''"
  using assms
  by (simp add: get_vfh_command_returns get_vfh_command_current left_front_blocked_obstacle init_fields)

lemma scenario_second:
  assumes "f_sub ops 0 0 = 0" and "f_sub ops (1 / 2) 0 = 1 / 2" and "0 < fd" and "fd \<le> 1 / 2"
  shows "fst (get_vfh_command ops (1 / 2) left_front_blocked
      (snd (get_vfh_command ops 0 left_front_blocked (KinectVFH_init th n td fd 0)))) = Some ''RIGHT''"
  using assms
  by (simp add: get_vfh_command_returns get_vfh_command_current get_vfh_command_start
        get_vfh_command_durations left_front_blocked_obstacle left_front_blocked_turn init_fields)

text \<open>
  C4. In a call of \<^verbatim>\<open>get_vfh_command\<close> with at least one sector status High, with
  the elapsed time as the call computes it (the machine's difference of the clock value
  and \<^verbatim>\<open>command_start_time\<close>): if \<^verbatim>\<open>current_command\<close> is FORWARD and the
  elapsed time is at least \<^verbatim>\<open>forward_duration\<close>, \<^verbatim>\<open>current_command\<close> becomes
  the pending turn direction (\<^verbatim>\<open>turn_direction\<close> as the call leaves it) and the timer
  is reset to the clock value; if it is LEFT or RIGHT and the elapsed time is at least
  \<^verbatim>\<open>turn_duration\<close>, it becomes FORWARD and the timer is reset; otherwise both are
  unchanged; the call returns the resulting \<^verbatim>\<open>current_command\<close>. With only the
  left-front sector High and a forward duration of 0.4 s (any value above 0 and up to
  0.5 s, so the float nearest to 0.4 also), a call at time 0 just after a reset to
  FORWARD returns FORWARD, and the next call at 0.5 s with the same sectors returns RIGHT;
  here the two differences 0 - 0 and 0.5 - 0 are the exact ones, as they are in binary
  floating point.
\<close>

theorem get_vfh_command_debounce:
  assumes "obstacle_detected d"
  shows "(current_command v = Some ''FORWARD'' \<and> forward_duration v \<le> f_sub ops t (command_start_time v) \<longrightarrow>
            current_command (snd (get_vfh_command ops t d v)) = turn_direction (snd (get_vfh_command ops t d v))
            \<and> command_start_time (snd (get_vfh_command ops t d v)) = t)
       \<and> (current_command v \<in> {Some ''LEFT'', Some ''RIGHT''} \<and> turn_duration v \<le> f_sub ops t (command_start_time v) \<longrightarrow>
            current_command (snd (get_vfh_command ops t d v)) = Some ''FORWARD''
            \<and> command_start_time (snd (get_vfh_command ops t d v)) = t)
       \<and> (\<not> (current_command v = Some ''FORWARD'' \<and> forward_duration v \<le> f_sub ops t (command_start_time v))
          \<and> \<not> (current_command v \<in> {Some ''LEFT'', Some ''RIGHT''} \<and> turn_duration v \<le> f_sub ops t (command_start_time v)) \<longrightarrow>
            current_command (snd (get_vfh_command ops t d v)) = current_command v
            \<and> command_start_time (snd (get_vfh_command ops t d v)) = command_start_time v)
       \<and> fst (get_vfh_command ops t d v) = current_command (snd (get_vfh_command ops t d v))
       \<and> (f_sub ops 0 0 = 0 \<and> f_sub ops (1 / 2) 0 = 1 / 2 \<and> 0 < fd \<and> fd \<le> 1 / 2 \<longrightarrow>
            fst (get_vfh_command ops 0 left_front_blocked (KinectVFH_init th n td fd 0)) = Some ''FORWARD''
            \<and> fst (get_vfh_command ops (1 / 2) left_front_blocked
                (snd (get_vfh_command ops 0 left_front_blocked (KinectVFH_init th n td fd 0)))) = Some ''RIGHT'')"
proof -
  have c: "fst (get_vfh_command ops t d v) = current_command (snd (get_vfh_command ops t d v))"
    by (rule get_vfh_command_returns)
  have d: "current_command v = Some ''FORWARD'' \<and> forward_duration v \<le> f_sub ops t (command_start_time v) \<longrightarrow>
            current_command (snd (get_vfh_command ops t d v)) = turn_direction (snd (get_vfh_command ops t d v))
            \<and> command_start_time (snd (get_vfh_command ops t d v)) = t"
    using assms by (simp add: get_vfh_command_current get_vfh_command_start get_vfh_command_turn)
  have e: "current_command v \<in> {Some ''LEFT'', Some ''RIGHT''} \<and> turn_duration v \<le> f_sub ops t (command_start_time v) \<longrightarrow>
            current_command (snd (get_vfh_command ops t d v)) = Some ''FORWARD''
            \<and> command_start_time (snd (get_vfh_command ops t d v)) = t"
    using assms by (auto simp add: get_vfh_command_current get_vfh_command_start)
  have f: "\<not> (current_command v = Some ''FORWARD'' \<and> forward_duration v \<le> f_sub ops t (command_start_time v))
          \<and> \<not> (current_command v \<in> {Some ''LEFT'', Some ''RIGHT''} \<and> turn_duration v \<le> f_sub ops t (command_start_time v)) \<longrightarrow>
            current_command (snd (get_vfh_command ops t d v)) = current_command v
            \<and> command_start_time (snd (get_vfh_command ops t d v)) = command_start_time v"
    using assms by (auto simp add: get_vfh_command_current get_vfh_command_start)
  have g: "f_sub ops 0 0 = 0 \<and> f_sub ops (1 / 2) 0 = 1 / 2 \<and> 0 < fd \<and> fd \<le> 1 / 2 \<longrightarrow>
            fst (get_vfh_command ops 0 left_front_blocked (KinectVFH_init th n td fd 0)) = Some ''FORWARD''
            \<and> fst (get_vfh_command ops (1 / 2) left_front_blocked
                (snd (get_vfh_command ops 0 left_front_blocked (KinectVFH_init th n td fd 0)))) = Some ''RIGHT''"
    using scenario_first [of ops fd th n td] scenario_second [of ops fd th n td] by blast
  from c d e f g show ?thesis
    by blast
qed

text \<open>
  The theorem with times and durations that binary floating point holds and subtracts
  without rounding, so that the exact subtraction is the machine's. A controller turned
  RIGHT at time 0.5 with turn duration 0.25, the left-front sector still High: at 0.625
  the command and the timer stay, at 0.75 the command is FORWARD again and the timer is
  0.75. And the scenario above with forward duration 0.4.
\<close>

theorem get_vfh_command_debounce_witness:
  "obstacle_detected left_front_blocked
   \<and> fst (get_vfh_command exact_ops 0.625 left_front_blocked
        ((KinectVFH_init 1 5 0.25 0.5 0)\<lparr>current_command := Some ''RIGHT'', command_start_time := 0.5\<rparr>))
       = Some ''RIGHT''
   \<and> command_start_time (snd (get_vfh_command exact_ops 0.625 left_front_blocked
        ((KinectVFH_init 1 5 0.25 0.5 0)\<lparr>current_command := Some ''RIGHT'', command_start_time := 0.5\<rparr>)))
       = 0.5
   \<and> fst (get_vfh_command exact_ops 0.75 left_front_blocked
        ((KinectVFH_init 1 5 0.25 0.5 0)\<lparr>current_command := Some ''RIGHT'', command_start_time := 0.5\<rparr>))
       = Some ''FORWARD''
   \<and> command_start_time (snd (get_vfh_command exact_ops 0.75 left_front_blocked
        ((KinectVFH_init 1 5 0.25 0.5 0)\<lparr>current_command := Some ''RIGHT'', command_start_time := 0.5\<rparr>)))
       = 0.75
   \<and> fst (get_vfh_command exact_ops 0 left_front_blocked (KinectVFH_init 1 5 0.2 0.4 0)) = Some ''FORWARD''
   \<and> fst (get_vfh_command exact_ops (1 / 2) left_front_blocked
        (snd (get_vfh_command exact_ops 0 left_front_blocked (KinectVFH_init 1 5 0.2 0.4 0)))) = Some ''RIGHT''"
  using get_vfh_command_debounce [OF left_front_blocked_obstacle,
      where v = "(KinectVFH_init 1 5 0.25 0.5 0)\<lparr>current_command := Some ''RIGHT'', command_start_time := 0.5\<rparr>"
      and t = "0.625" and ops = exact_ops and fd = "0.4" and th = 1 and n = 5 and td = "0.2"]
    get_vfh_command_debounce [OF left_front_blocked_obstacle,
      where v = "(KinectVFH_init 1 5 0.25 0.5 0)\<lparr>current_command := Some ''RIGHT'', command_start_time := 0.5\<rparr>"
      and t = "0.75" and ops = exact_ops and fd = "0.4" and th = 1 and n = 5 and td = "0.2"]
  by (simp add: left_front_blocked_obstacle init_fields exact_sub)

text \<open>
  C6. In a call of \<^verbatim>\<open>get_vfh_command\<close> with at least one sector status High, the
  pending turn direction is set by the first match: RIGHT if Kiri or Kiri-Depan is High;
  otherwise LEFT if Kanan or Kanan-Depan is High; otherwise, if Tengah is High, LEFT when
  Kiri-Depan is Low and RIGHT when it is not. (With none of the five High it is kept.)
\<close>

theorem turn_direction_precedence:
  assumes "obstacle_detected d"
  shows "turn_direction (snd (get_vfh_command ops t d v)) =
     (if sector_get d ''Kiri'' = ''High'' \<or> sector_get d ''Kiri-Depan'' = ''High'' then Some ''RIGHT''
      else if sector_get d ''Kanan'' = ''High'' \<or> sector_get d ''Kanan-Depan'' = ''High'' then Some ''LEFT''
      else if sector_get d ''Tengah'' = ''High''
      then (if sector_get d ''Kiri-Depan'' = ''Low'' then Some ''LEFT'' else Some ''RIGHT'')
      else turn_direction v)"
  using assms by (simp add: get_vfh_command_turn choose_turn_direction)

text \<open>
  The theorem with only the centre sector High, and with the left-front sector High.
\<close>

theorem turn_direction_precedence_witness:
  "obstacle_detected center_blocked
   \<and> obstacle_detected left_front_blocked
   \<and> turn_direction (snd (get_vfh_command exact_ops 0 center_blocked (KinectVFH_init 1 5 0.2 0.4 0))) = Some ''LEFT''
   \<and> turn_direction (snd (get_vfh_command exact_ops 0 left_front_blocked (KinectVFH_init 1 5 0.2 0.4 0))) = Some ''RIGHT''"
proof -
  have center: "sector_get center_blocked ''Kiri'' = ''Low''" "sector_get center_blocked ''Kiri-Depan'' = ''Low''"
    "sector_get center_blocked ''Kanan'' = ''Low''" "sector_get center_blocked ''Kanan-Depan'' = ''Low''"
    "sector_get center_blocked ''Tengah'' = ''High''"
    by (simp_all add: center_blocked_def sector_get_def)
  have left: "sector_get left_front_blocked ''Kiri-Depan'' = ''High''"
    by (simp add: left_front_blocked_def sector_get_def)
  have "turn_direction (snd (get_vfh_command exact_ops 0 center_blocked (KinectVFH_init 1 5 0.2 0.4 0))) = Some ''LEFT''"
    unfolding turn_direction_precedence [OF center_blocked_obstacle] center by simp
  moreover
  have "turn_direction (snd (get_vfh_command exact_ops 0 left_front_blocked (KinectVFH_init 1 5 0.2 0.4 0))) = Some ''RIGHT''"
    unfolding turn_direction_precedence [OF left_front_blocked_obstacle] left by simp
  ultimately show ?thesis
    using center_blocked_obstacle left_front_blocked_obstacle by blast
qed








section \<open>The control loop\<close>














section \<open>The sector classifier\<close>

lemma map2_same: "map2 f (map g xs) (map h xs) = map (\<lambda>x. f (g x) (h x)) xs"
  by (induction xs) simp_all

lemma theta_points_azimuth:
  "theta_points ops v df =
     (map (\<lambda>(r, c, z). z) (valid_points df),
      map (\<lambda>(r, c, z). azimuth ops v c z) (valid_points df))"
proof -
  let ?valid = "valid_points df"
  let ?c = "\<lambda>p. case p of (r :: nat, c :: nat, z :: real) \<Rightarrow> real c"
  let ?z = "\<lambda>p. case p of (r :: nat, c :: nat, z :: real) \<Rightarrow> z"
  let ?x = "\<lambda>p. f_div ops (f_mul ops (f_sub ops (?c p) (cx v)) (?z p)) (fx v)"
  let ?th = "f_radians ops (angle_y v)"
  let ?xr = "\<lambda>p. f_add ops (f_mul ops (f_cos ops ?th) (?x p)) (f_mul ops (f_sin ops ?th) (?z p))"
  let ?zr = "\<lambda>p. f_add ops (f_mul ops (- f_sin ops ?th) (?x p)) (f_mul ops (f_cos ops ?th) (?z p))"
  have x: "map2 (\<lambda>c z. f_div ops (f_mul ops (f_sub ops c (cx v)) z) (fx v)) (map ?c ?valid) (map ?z ?valid)
      = map ?x ?valid"
    by (rule map2_same)
  have xr: "map2 (\<lambda>x z. f_add ops (f_mul ops (f_cos ops ?th) x) (f_mul ops (f_sin ops ?th) z))
        (map ?x ?valid) (map ?z ?valid) = map ?xr ?valid"
    by (rule map2_same)
  have zr: "map2 (\<lambda>x z. f_add ops (f_mul ops (- f_sin ops ?th) x) (f_mul ops (f_cos ops ?th) z))
        (map ?x ?valid) (map ?z ?valid) = map ?zr ?valid"
    by (rule map2_same)
  have tp: "map2 (f_arctan2 ops) (map ?xr ?valid) (map ?zr ?valid)
      = map (\<lambda>p. f_arctan2 ops (?xr p) (?zr p)) ?valid"
    by (rule map2_same)
  have az: "(\<lambda>p. f_mod ops (f_arctan2 ops (?xr p) (?zr p)) (f_pi ops)) = (\<lambda>(r, c, z). azimuth ops v c z)"
    by (auto simp: azimuth_def rotated_x_def rotated_z_def view_yaw_def backproject_x_def fun_eq_iff)
  have "theta_points ops v df =
      (map ?z ?valid, map (\<lambda>p. f_mod ops (f_arctan2 ops (?xr p) (?zr p)) (f_pi ops)) ?valid)"
    unfolding theta_points_def Let_def x xr zr tp by simp
  then show ?thesis
    unfolding az .
qed

lemma in_valid_points_D:
  assumes "(r, c, z) \<in> set (valid_points df)"
  shows "r < length df \<and> c < length (df ! r) \<and> z = df ! r ! c \<and> 0 < z"
proof -
  from assms obtain p where p: "p \<in> set (enumerate 0 df)"
    and m: "(r, c, z) \<in> set (case p of (r, row) \<Rightarrow> map (\<lambda>(c, z). (r, c, z))
                                 (filter (\<lambda>(c, z). 0 < z) (enumerate 0 row)))"
    unfolding valid_points_def set_concat set_map by blast
  obtain r' row where pr: "p = (r', row)"
    by (cases p)
  from m pr have m': "(r, c, z) \<in> (\<lambda>(c, z). (r', c, z)) ` set (filter (\<lambda>(c, z). 0 < z) (enumerate 0 row))"
    by simp
  then obtain q where q: "q \<in> set (filter (\<lambda>(c, z). 0 < z) (enumerate 0 row))"
    and eq: "(r, c, z) = (case q of (c, z) \<Rightarrow> (r', c, z))"
    by blast
  obtain c' z' where qc: "q = (c', z')"
    by (cases q)
  from eq qc have "r = r'" "c = c'" "z = z'"
    by simp_all
  with q qc have cz: "(c, z) \<in> set (enumerate 0 row)" and pos: "0 < z"
    by simp_all
  from p pr \<open>r = r'\<close> have "r < length df" "row = df ! r"
    by (simp_all add: in_set_enumerate_eq)
  moreover from cz have "c < length row" "z = row ! c"
    by (simp_all add: in_set_enumerate_eq)
  ultimately show ?thesis
    using pos by simp
qed


lemma in_valid_points_I:
  assumes "r < length df" and "c < length (df ! r)" and "0 < df ! r ! c"
  shows "(r, c, df ! r ! c) \<in> set (valid_points df)"
proof -
  from assms(1) have row: "(r, df ! r) \<in> set (enumerate 0 df)"
    by (simp add: in_set_enumerate_eq)
  from assms(2) have "(c, df ! r ! c) \<in> set (enumerate 0 (df ! r))"
    by (simp add: in_set_enumerate_eq)
  with assms(3) have "(c, df ! r ! c) \<in> set (filter (\<lambda>(c, z). 0 < z) (enumerate 0 (df ! r)))"
    by simp
  then have "(\<lambda>(c, z). (r, c, z)) (c, df ! r ! c)
      \<in> (\<lambda>(c, z). (r, c, z)) ` set (filter (\<lambda>(c, z). 0 < z) (enumerate 0 (df ! r)))"
    by (rule imageI)
  then have "(r, c, df ! r ! c)
      \<in> set (case (r, df ! r) of (r, row) \<Rightarrow> map (\<lambda>(c, z). (r, c, z))
                                 (filter (\<lambda>(c, z). 0 < z) (enumerate 0 row)))"
    by simp
  with row show ?thesis
    unfolding valid_points_def set_concat set_map by blast
qed

lemma in_valid_points:
  "(r, c, z) \<in> set (valid_points df) \<longleftrightarrow>
     r < length df \<and> c < length (df ! r) \<and> z = df ! r ! c \<and> 0 < z"
  using in_valid_points_D [of r c z df] in_valid_points_I [of r df c] by blast


lemma masked_depths:
  "map fst (filter snd (zip (map f xs) (map P xs))) = map f (filter P xs)"
  by (induction xs) simp_all

lemma any_mask: "list_ex (\<lambda>m. m) (map P xs) \<longleftrightarrow> filter P xs \<noteq> []"
  by (induction xs) simp_all

lemma sector_state_points:
  fixes pts :: "(nat \<times> nat \<times> real) list"
  shows "sector_state ops v (map (\<lambda>(r, c, z). z) pts) (map (\<lambda>(r, c, z). azimuth ops v c z) pts) i =
     (let inside = filter (\<lambda>(r, c, z). sector_bound ops v i \<le> azimuth ops v c z
                                      \<and> azimuth ops v c z < sector_bound ops v (i + 1)) pts
      in if inside \<noteq> [] then
           (if min_list (map (\<lambda>(r, c, z). z) inside) < threshold_distance v then ''High'' else ''Low'')
         else ''Low'')"
proof -
  define A where "A = (\<lambda>(r :: nat, c :: nat, z :: real). azimuth ops v c z)"
  define Z where "Z = (\<lambda>(r :: nat, c :: nat, z :: real). z)"
  define P where "P = (\<lambda>(r :: nat, c :: nat, z :: real). sector_bound ops v i \<le> azimuth ops v c z
                                      \<and> azimuth ops v c z < sector_bound ops v (i + 1))"
  have PA: "P = (\<lambda>p. sector_bound ops v i \<le> A p \<and> A p < sector_bound ops v (i + 1))"
    by (auto simp: P_def A_def fun_eq_iff)
  have mask: "map (\<lambda>t. sector_bound ops v i \<le> t \<and> t < sector_bound ops v (i + 1)) (map A pts) = map P pts"
    by (simp add: PA)
  have "sector_state ops v (map Z pts) (map A pts) i =
      (if list_ex (\<lambda>m. m) (map P pts) then
         (if min_list (map fst (filter snd (zip (map Z pts) (map P pts)))) < threshold_distance v
          then ''High'' else ''Low'')
       else ''Low'')"
    unfolding sector_state_def Let_def sector_bound_def [symmetric] mask ..
  also have "\<dots> = (if filter P pts \<noteq> [] then
         (if min_list (map Z (filter P pts)) < threshold_distance v then ''High'' else ''Low'')
       else ''Low'')"
    unfolding masked_depths any_mask ..
  finally show ?thesis
    unfolding A_def Z_def P_def Let_def .
qed

lemma inside_depths:
  "set (map (\<lambda>(r, c, z). z)
        (filter (\<lambda>(r, c, z). sector_bound ops v i \<le> azimuth ops v c z
                            \<and> azimuth ops v c z < sector_bound ops v (i + 1))
                (valid_points df)))
   = sector_depths ops v df i" (is "?L = ?R")
proof (rule set_eqI)
  fix z
  show "z \<in> ?L \<longleftrightarrow> z \<in> ?R"
  proof
    assume "z \<in> ?L"
    then obtain p where p: "p \<in> set (valid_points df)"
      and inside: "case p of (r, c, z) \<Rightarrow> sector_bound ops v i \<le> azimuth ops v c z
                            \<and> azimuth ops v c z < sector_bound ops v (i + 1)"
      and z: "z = (case p of (r, c, z) \<Rightarrow> z)"
      by auto
    obtain r c z' where pe: "p = (r, c, z')"
      by (cases p)
    with z have zz: "z' = z"
      by simp
    from p pe zz have "r < length df \<and> c < length (df ! r) \<and> z = df ! r ! c \<and> 0 < z"
      by (simp add: in_valid_points)
    moreover from inside pe zz have "sector_bound ops v i \<le> azimuth ops v c z
        \<and> azimuth ops v c z < sector_bound ops v (i + 1)"
      by simp
    ultimately show "z \<in> ?R"
      unfolding sector_depths_def by blast
  next
    assume "z \<in> ?R"
    then obtain r c where rc: "r < length df \<and> c < length (df ! r) \<and> z = df ! r ! c \<and> 0 < z"
      and th: "sector_bound ops v i \<le> azimuth ops v c z
        \<and> azimuth ops v c z < sector_bound ops v (i + 1)"
      unfolding sector_depths_def by blast
    from rc have "(r, c, z) \<in> set (valid_points df)"
      by (simp add: in_valid_points)
    with th have "(r, c, z) \<in> set (filter (\<lambda>(r, c, z). sector_bound ops v i \<le> azimuth ops v c z
                            \<and> azimuth ops v c z < sector_bound ops v (i + 1)) (valid_points df))"
      by simp
    then have "(\<lambda>(r, c, z). z) (r, c, z) \<in> ?L"
      unfolding set_map by (rule imageI)
    then show "z \<in> ?L"
      by simp
  qed
qed

lemma sector_state_depths:
  "sector_state ops v (map (\<lambda>(r, c, z). z) (valid_points df))
       (map (\<lambda>(r, c, z). azimuth ops v c z) (valid_points df)) i =
     (if sector_depths ops v df i \<noteq> {} \<and> Min (sector_depths ops v df i) < threshold_distance v
      then ''High'' else ''Low'')"
proof -
  define inside where "inside = filter (\<lambda>(r, c, z). sector_bound ops v i \<le> azimuth ops v c z
                            \<and> azimuth ops v c z < sector_bound ops v (i + 1)) (valid_points df)"
  define zs where "zs = map (\<lambda>(r :: nat, c :: nat, z :: real). z) inside"
  have s: "set zs = sector_depths ops v df i"
    unfolding zs_def inside_def by (rule inside_depths)
  have "zs = [] \<longleftrightarrow> set zs = {}"
    by simp
  with s have e: "inside = [] \<longleftrightarrow> sector_depths ops v df i = {}"
    by (simp add: zs_def)
  have "zs \<noteq> [] \<Longrightarrow> min_list zs = Min (set zs)"
    by (rule min_list_Min)
  with s e have m: "inside \<noteq> [] \<Longrightarrow> min_list zs = Min (sector_depths ops v df i)"
    by (simp add: zs_def)
  have st: "sector_state ops v (map (\<lambda>(r, c, z). z) (valid_points df))
       (map (\<lambda>(r, c, z). azimuth ops v c z) (valid_points df)) i =
      (if inside \<noteq> [] then (if min_list zs < threshold_distance v then ''High'' else ''Low'') else ''Low'')"
    unfolding sector_state_points Let_def zs_def inside_def ..
  show ?thesis
    unfolding st using e m by auto
qed


lemma analyze_five:
  assumes "sector_labels v = [''Kiri'', ''Kiri-Depan'', ''Tengah'', ''Kanan-Depan'', ''Kanan'']"
    and "num_sectors v \<noteq> 0"
  shows "analyze_sectors ops v (Some df) =
     Inr (map (\<lambda>(i, label). (label,
            if sector_depths ops v df i \<noteq> {} \<and> Min (sector_depths ops v df i) < threshold_distance v
            then ''High'' else ''Low''))
          [(0, ''Kiri''), (1, ''Kiri-Depan''), (2, ''Tengah''), (3, ''Kanan-Depan''), (4, ''Kanan'')])"
proof -
  have nums: "Suc (Suc 0) = 2" "Suc (Suc (Suc 0)) = 3" "Suc (Suc (Suc (Suc 0))) = 4"
    by simp_all
  have "analyze_sectors ops v (Some df) =
     Inr (map (\<lambda>(i, label). (label,
            sector_state ops v (map (\<lambda>(r, c, z). z) (valid_points df))
              (map (\<lambda>(r, c, z). azimuth ops v c z) (valid_points df)) i))
          [(0, ''Kiri''), (1, ''Kiri-Depan''), (2, ''Tengah''), (3, ''Kanan-Depan''), (4, ''Kanan'')])"
    using assms by (simp add: analyze_sectors_def theta_points_azimuth nums)
  then show ?thesis
    by (simp only: sector_state_depths)
qed

lemma analyze_none:
  assumes "sector_labels v = [''Kiri'', ''Kiri-Depan'', ''Tengah'', ''Kanan-Depan'', ''Kanan'']"
  shows "analyze_sectors ops v None = Inr all_low"
  using assms by (simp add: analyze_sectors_def all_low_def)

text \<open>
  The exact operations compute the azimuth of the specification: \<open>arctan2\<close> is the
  angle of the polar form, and the remainder modulo \<open>\<pi>\<close> shifts it into the range
  from 0 up to but excluding \<open>\<pi>\<close> without changing the line through the origin.
\<close>

lemma arctan2_polar_pos:
  assumes "0 < x"
  shows "sqrt (x\<^sup>2 + y\<^sup>2) * cos (arctan (y / x)) = x \<and> sqrt (x\<^sup>2 + y\<^sup>2) * sin (arctan (y / x)) = y"
proof -
  define t where "t = y / x"
  have y: "y = x * t"
    using assms by (simp add: t_def)
  have "x\<^sup>2 + y\<^sup>2 = x\<^sup>2 * (1 + t\<^sup>2)"
    by (simp add: y power_mult_distrib algebra_simps)
  then have r: "sqrt (x\<^sup>2 + y\<^sup>2) = x * sqrt (1 + t\<^sup>2)"
    using assms by (simp add: real_sqrt_mult)
  have pos: "0 < sqrt (1 + t\<^sup>2)"
    by (simp add: add_pos_nonneg)
  from r pos show ?thesis
    unfolding t_def [symmetric] by (simp add: cos_arctan sin_arctan y)
qed


lemma arctan2_polar:
  "sqrt (x\<^sup>2 + y\<^sup>2) * cos (arctan2 y x) = x \<and> sqrt (x\<^sup>2 + y\<^sup>2) * sin (arctan2 y x) = y"
proof -
  consider "0 < x" | "x < 0" | "x = 0" "0 < y" | "x = 0" "y < 0" | "x = 0" "y = 0"
    by linarith
  then show ?thesis
  proof cases
    case 1
    with arctan2_polar_pos [OF 1, of y] show ?thesis
      by (simp add: arctan2_def)
  next
    case 2
    then have "0 < - x"
      by simp
    from arctan2_polar_pos [OF this, of "- y"] have "sqrt (x\<^sup>2 + y\<^sup>2) * cos (arctan (y / x)) = - x"
        "sqrt (x\<^sup>2 + y\<^sup>2) * sin (arctan (y / x)) = - y"
      by simp_all
    with 2 show ?thesis
      by (simp add: arctan2_def)
  next
    case 3
    then show ?thesis
      by (simp add: arctan2_def)
  next
    case 4
    then show ?thesis
      by (simp add: arctan2_def)
  next
    case 5
    then show ?thesis
      by (simp add: arctan2_def)
  qed
qed

lemma arctan2_range: "- pi < arctan2 y x \<and> arctan2 y x \<le> pi"
proof -
  have b: "- (pi / 2) < arctan (y / x)" "arctan (y / x) < pi / 2"
    by (rule arctan_lbound, rule arctan_ubound)
  consider "0 < x" | "x < 0" "0 \<le> y" | "x < 0" "y < 0" | "x = 0"
    by linarith
  then show ?thesis
  proof cases
    case 1
    with b pi_gt_zero show ?thesis
      by (simp add: arctan2_def; linarith)
  next
    case 2
    then have "y / x \<le> 0"
      by (simp add: divide_nonneg_neg)
    then have "arctan (y / x) \<le> arctan 0"
      by (rule arctan_monotone')
    with 2 b pi_gt_zero show ?thesis
      by (simp add: arctan2_def; linarith)
  next
    case 3
    then have "0 < y / x"
      by (simp add: divide_neg_neg)
    then have "0 < arctan (y / x)"
      by simp
    with 3 b pi_gt_zero show ?thesis
      by (simp add: arctan2_def; linarith)
  next
    case 4
    with pi_gt_zero show ?thesis
      by (auto simp: arctan2_def; linarith)
  qed
qed

lemma fmod_pi:
  "0 \<le> fmod a pi \<and> fmod a pi < pi \<and> a = fmod a pi + pi * of_int \<lfloor>a / pi\<rfloor>"
proof -
  define k where "k = \<lfloor>a / pi\<rfloor>"
  have "of_int k \<le> a / pi" "a / pi < of_int k + 1"
    unfolding k_def by linarith+
  then have "of_int k * pi \<le> a" "a < (of_int k + 1) * pi"
    using pi_gt_zero by (simp_all add: pos_le_divide_eq pos_divide_less_eq)
  then have "0 \<le> a - pi * of_int k" "a - pi * of_int k < pi"
    by (simp_all add: algebra_simps)
  then show ?thesis
    by (simp add: fmod_def k_def)
qed

lemma sin_cos_shift:
  "sin (a + pi * of_int k) = (if even k then sin a else - sin a)"
  "cos (a + pi * of_int k) = (if even k then cos a else - cos a)"
  by (simp_all add: sin_add cos_add)

lemma azimuth_direction:
  "0 \<le> azimuth exact_ops v c z \<and> azimuth exact_ops v c z < pi
   \<and> rotated_x exact_ops v c z * cos (azimuth exact_ops v c z)
       = rotated_z exact_ops v c z * sin (azimuth exact_ops v c z)"
proof -
  define X where "X = rotated_x exact_ops v c z"
  define Z where "Z = rotated_z exact_ops v c z"
  define th where "th = arctan2 X Z"
  define a where "a = fmod th pi"
  define k where "k = \<lfloor>th / pi\<rfloor>"
  have az: "azimuth exact_ops v c z = a"
    by (simp add: azimuth_def a_def th_def X_def Z_def) (simp add: exact_ops_def)
  from fmod_pi [of th] have range: "0 \<le> a" "a < pi" and th: "th = a + pi * of_int k"
    by (simp_all add: a_def k_def)
  from arctan2_polar [of Z X] have polar: "sqrt (Z\<^sup>2 + X\<^sup>2) * cos th = Z" "sqrt (Z\<^sup>2 + X\<^sup>2) * sin th = X"
    by (simp_all add: th_def)
  have "X * cos th = Z * sin th"
  proof -
    have "X * cos th = sqrt (Z\<^sup>2 + X\<^sup>2) * sin th * cos th"
      by (simp add: polar)
    also have "\<dots> = (sqrt (Z\<^sup>2 + X\<^sup>2) * cos th) * sin th"
      by simp
    also have "\<dots> = Z * sin th"
      by (simp add: polar)
    finally show ?thesis .
  qed
  then have "X * cos a = Z * sin a"
    unfolding th by (simp add: sin_cos_shift split: if_splits)
  with range show ?thesis
    unfolding az X_def Z_def by simp
qed

text \<open>
  C5. For a classifier with the five sector labels of \<^verbatim>\<open>__init__\<close>, a sector count
  \<open>N\<close> other than 0 and a focal length other than 0, and for every depth frame,
  \<^verbatim>\<open>analyze_sectors\<close> returns a status for each label, and the status of sector
  \<open>i\<close> is High exactly when some valid point (depth above zero) has its azimuth (the
  back-projected \<open>x\<close> and the depth rotated by the view yaw, \<open>atan2 (x', z')\<close>,
  reduced modulo \<open>\<pi>\<close>) in the range from \<open>i \<pi> / N\<close> up to but excluding
  \<open>(i + 1) \<pi> / N\<close>, and the least original, unrotated depth of those points is
  strictly below \<^verbatim>\<open>threshold_distance\<close>; otherwise, and in particular when no valid
  point falls in the sector, it is Low. For an absent depth frame every sector is Low, so
  all sectors are clear. This holds whatever the machine's float operations are. With
  the exact operations the azimuth of a pixel lies from 0 up to but excluding \<open>\<pi>\<close>
  and points along the rotated \<open>(x', z')\<close>, that is, it is \<open>atan2 (x', z')\<close> modulo
  \<open>\<pi>\<close>.
\<close>

theorem analyze_sectors_rule:
  assumes "sector_labels v = [''Kiri'', ''Kiri-Depan'', ''Tengah'', ''Kanan-Depan'', ''Kanan'']"
    and "num_sectors v \<noteq> 0" and "fx v \<noteq> 0" and "i < 5"
  shows "(\<exists>d. analyze_sectors ops v (Some df) = Inr d
            \<and> map fst d = sector_labels v
            \<and> sector_get d (sector_labels v ! i) =
                (if sector_depths ops v df i \<noteq> {} \<and> Min (sector_depths ops v df i) < threshold_distance v
                 then ''High'' else ''Low''))
         \<and> analyze_sectors ops v None = Inr all_low
         \<and> is_all_clear all_low
         \<and> 0 \<le> azimuth exact_ops v col depth \<and> azimuth exact_ops v col depth < pi
         \<and> rotated_x exact_ops v col depth * cos (azimuth exact_ops v col depth)
             = rotated_z exact_ops v col depth * sin (azimuth exact_ops v col depth)"
proof -
  let ?s = "\<lambda>i. if sector_depths ops v df i \<noteq> {} \<and> Min (sector_depths ops v df i) < threshold_distance v
            then ''High'' else ''Low''"
  let ?d = "[(''Kiri'', ?s 0), (''Kiri-Depan'', ?s 1), (''Tengah'', ?s 2),
             (''Kanan-Depan'', ?s 3), (''Kanan'', ?s 4)]"
  have d: "analyze_sectors ops v (Some df) = Inr ?d"
    using analyze_five [OF assms(1,2), of ops df] by simp
  have keys: "map fst ?d = sector_labels v"
    by (simp add: assms(1))
  from assms(4) have "i = 0 \<or> i = 1 \<or> i = 2 \<or> i = 3 \<or> i = 4"
    by arith
  then have get: "sector_get ?d (sector_labels v ! i) = ?s i"
    by (elim disjE) (simp_all add: assms(1) sector_get_def)
  have clear: "is_all_clear all_low"
    by (simp add: is_all_clear_def dict_values_def all_low_def)
  from d keys get analyze_none [OF assms(1)] clear azimuth_direction [of v col depth] show ?thesis
    by blast
qed


lemma fmod_small:
  assumes "0 \<le> a" and "a < pi"
  shows "fmod a pi = a"
proof -
  have "\<lfloor>a / pi\<rfloor> = 0"
  proof (rule floor_unique)
    from assms(1) show "of_int 0 \<le> a / pi"
      using pi_gt_zero by simp
    from assms(2) show "a / pi < of_int 0 + 1"
      using pi_gt_zero by simp
  qed
  then show ?thesis
    by (simp add: fmod_def)
qed

lemma quarter_turned_fields:
  "num_sectors quarter_turned = 4" "threshold_distance quarter_turned = 1" "fx quarter_turned = 525"
  "cx quarter_turned = 319.5" "angle_y quarter_turned = 90"
  "sector_labels quarter_turned = [''Kiri'', ''Kiri-Depan'', ''Tengah'', ''Kanan-Depan'', ''Kanan'']"
  by (simp_all add: quarter_turned_def KinectVFH_init_def)

lemma quarter_turned_azimuth:
  assumes "0 < z" and "real c < 319"
  shows "pi / 4 < azimuth exact_ops quarter_turned c z \<and> azimuth exact_ops quarter_turned c z < pi / 2"
proof -
  define x where "x = (real c - 319.5) * z / 525"
  have xneg: "x < 0"
    using assms by (simp add: x_def field_simps)
  have bx: "backproject_x exact_ops quarter_turned c z = x"
    by (simp add: backproject_x_def exact_ops_def quarter_turned_fields x_def)
  have yaw: "view_yaw exact_ops quarter_turned = pi / 2"
    by (simp add: view_yaw_def exact_ops_def quarter_turned_fields)
  have rx: "rotated_x exact_ops quarter_turned c z = z"
    by (simp add: rotated_x_def bx yaw) (simp add: exact_ops_def)
  have rz: "rotated_z exact_ops quarter_turned c z = - x"
    by (simp add: rotated_z_def bx yaw) (simp add: exact_ops_def)
  define rho where "rho = 525 / (319.5 - real c)"
  have rho: "1 < rho"
    using assms(2) by (simp add: rho_def)
  have ratio: "z / (- x) = rho"
    using assms by (simp add: x_def rho_def field_simps)
  have at: "arctan2 z (- x) = arctan rho"
    using xneg ratio by (simp add: arctan2_def)
  from rho have "arctan 1 < arctan rho"
    by (simp only: arctan_less_iff)
  then have lo: "pi / 4 < arctan rho"
    by (simp add: arctan_one)
  have hi: "arctan rho < pi / 2"
    by (rule arctan_ubound)
  have "0 \<le> arctan rho" "arctan rho < pi"
    using lo hi pi_gt_zero by linarith+
  then have "fmod (arctan rho) pi = arctan rho"
    by (rule fmod_small)
  then have "azimuth exact_ops quarter_turned c z = arctan rho"
    by (simp add: azimuth_def rx rz) (simp add: exact_ops_def at)
  with lo hi show ?thesis
    by simp
qed

lemma quarter_turned_bound: "sector_bound exact_ops quarter_turned i = real i * (pi / 4)"
  by (simp add: sector_bound_def exact_ops_def quarter_turned_fields)


lemma second_quarter:
  assumes "pi / 4 < a" and "a < pi / 2"
  shows "(real i * (pi / 4) \<le> a \<and> a < real (i + 1) * (pi / 4)) \<longleftrightarrow> i = 1"
proof (cases "i = 1")
  case True
  with assms show ?thesis
    by simp
next
  case False
  then consider "i = 0" | "2 \<le> i"
    by arith
  then have "\<not> (real i * (pi / 4) \<le> a \<and> a < real (i + 1) * (pi / 4))"
  proof cases
    case 1
    with assms(1) show ?thesis
      by simp
  next
    case 2
    then have "2 \<le> real i"
      by simp
    define b where "b = real i * (pi / 4)"
    from \<open>2 \<le> real i\<close> have "2 * (pi / 4) \<le> real i * (pi / 4)"
      using pi_gt_zero by (intro mult_right_mono) simp_all
    then have "pi / 2 \<le> b"
      unfolding b_def by linarith
    with assms(2) have "\<not> b \<le> a"
      by linarith
    then show ?thesis
      unfolding b_def by blast
  qed
  with False show ?thesis
    by simp
qed

lemma two_pixels_valid: "valid_points two_pixels = [(0, 0, 0.5), (0, 1, 2)]"
  by (simp add: valid_points_def two_pixels_def)

lemma two_pixels_depths:
  "sector_depths exact_ops quarter_turned two_pixels i = (if i = 1 then {0.5, 2} else {})"
proof -
  have a0: "pi / 4 < azimuth exact_ops quarter_turned 0 0.5 \<and> azimuth exact_ops quarter_turned 0 0.5 < pi / 2"
    by (rule quarter_turned_azimuth) simp_all
  have a1: "pi / 4 < azimuth exact_ops quarter_turned 1 2 \<and> azimuth exact_ops quarter_turned 1 2 < pi / 2"
    by (rule quarter_turned_azimuth) simp_all
  have in0: "(sector_bound exact_ops quarter_turned i \<le> azimuth exact_ops quarter_turned 0 0.5
      \<and> azimuth exact_ops quarter_turned 0 0.5 < sector_bound exact_ops quarter_turned (i + 1)) \<longleftrightarrow> i = 1"
    unfolding quarter_turned_bound using a0 by (intro second_quarter) simp_all
  have in1: "(sector_bound exact_ops quarter_turned i \<le> azimuth exact_ops quarter_turned 1 2
      \<and> azimuth exact_ops quarter_turned 1 2 < sector_bound exact_ops quarter_turned (i + 1)) \<longleftrightarrow> i = 1"
    unfolding quarter_turned_bound using a1 by (intro second_quarter) simp_all
  have "sector_depths exact_ops quarter_turned two_pixels i =
      set (map (\<lambda>(r, c, z). z)
        (filter (\<lambda>(r, c, z). sector_bound exact_ops quarter_turned i \<le> azimuth exact_ops quarter_turned c z
                            \<and> azimuth exact_ops quarter_turned c z < sector_bound exact_ops quarter_turned (i + 1))
                (valid_points two_pixels)))"
    by (rule inside_depths [symmetric])
  also have "\<dots> = (if i = 1 then {0.5, 2} else {})"
    using in0 in1 by (auto simp: two_pixels_valid)
  finally show ?thesis .
qed

text \<open>
  The theorem at a classifier with four sectors, threshold 1 m and the view turned by 90
  degrees, on a frame of two pixels at 0.5 m and 2 m in columns 0 and 1, with the exact
  operations. The rotation takes \<open>(x, z)\<close> to \<open>(z, - x)\<close>; both pixels lie left of
  the principal point, so their azimuths fall strictly between \<open>\<pi> / 4\<close> and
  \<open>\<pi> / 2\<close>, well inside sector 1, whose least depth 0.5 m is well below the
  threshold.
\<close>

theorem analyze_sectors_rule_witness:
  "num_sectors quarter_turned \<noteq> 0 \<and> fx quarter_turned \<noteq> 0 \<and> (1::nat) < 5
   \<and> angle_y quarter_turned = 90
   \<and> sector_depths exact_ops quarter_turned two_pixels 1 = {0.5, 2}
   \<and> (\<exists>d. analyze_sectors exact_ops quarter_turned (Some two_pixels) = Inr d
          \<and> map fst d = [''Kiri'', ''Kiri-Depan'', ''Tengah'', ''Kanan-Depan'', ''Kanan'']
          \<and> sector_get d ''Kiri-Depan'' = ''High'')"
proof -
  have hyps: "num_sectors quarter_turned \<noteq> 0" "fx quarter_turned \<noteq> 0" "(1::nat) < 5"
    by (simp_all add: quarter_turned_fields)
  have depths: "sector_depths exact_ops quarter_turned two_pixels 1 = {0.5, 2}"
    by (simp add: two_pixels_depths)
  from analyze_sectors_rule [OF quarter_turned_fields(6) hyps, where ops = exact_ops and df = two_pixels]
  have "\<exists>d. analyze_sectors exact_ops quarter_turned (Some two_pixels) = Inr d
          \<and> map fst d = [''Kiri'', ''Kiri-Depan'', ''Tengah'', ''Kanan-Depan'', ''Kanan'']
          \<and> sector_get d ''Kiri-Depan'' = ''High''"
    by (simp add: two_pixels_depths quarter_turned_fields)
  with hyps depths show ?thesis
    by (simp add: quarter_turned_fields)
qed

end
